theory Spec2Isabelle
  imports Main "HOL-Library.Word"
begin

section \<open>The MP709 USB relay driver (mp709.py)\<close>

text \<open>
  A shallow embedding of \<^verbatim>\<open>src/mp709.py\<close>: the class \<^verbatim>\<open>mp709\<close> (one relay
  board behind a USB HID interface), the class \<^verbatim>\<open>relaysControl\<close> (enumeration
  of the boards and the control pass over them) and the part of \<^verbatim>\<open>main(argv)\<close>
  that follows the call of getopt.

  The program talks to the \<^verbatim>\<open>usb\<close> library. Every call of the library is
  recorded, in order, in a trace; what the library answers is given by an environment,
  an arbitrary function of the trace so far and of the call. The theorems hold for
  every environment.
\<close>

subsection \<open>Python values and exceptions\<close>

type_synonym byte = "8 word"

text \<open>The exceptions the program raises or lets through.\<close>

datatype error =
    ValueError
  | IndexError
  | TypeError
  | AttributeError
  | KeyError string
  | RuntimeWarning
  | USBError

text \<open>
  What a call of the library returns: \<^verbatim>\<open>None\<close>, an integer (the number of
  bytes written by an outgoing control transfer) or a sequence of bytes (the data read
  by an incoming one). The same type is the \<^verbatim>\<open>buffer\<close> argument of
  \<^verbatim>\<open>controlMsg\<close>: the bytes to send, or the number of bytes to read.
\<close>

datatype pyval = PNone | PInt int | PBytes "byte list"

text \<open>\<^verbatim>\<open>buffer[i]\<close> for a constant index \<open>i \<ge> 0\<close>: the byte as a Python integer.\<close>

fun getitem :: "pyval \<Rightarrow> nat \<Rightarrow> error + int" where
  "getitem (PBytes bs) i = (if i < length bs then Inr (uint (bs ! i)) else Inl IndexError)"
| "getitem (PInt n) i = Inl TypeError"
| "getitem PNone i = Inl TypeError"

text \<open>\<^verbatim>\<open>xs[0]\<close> on a list.\<close>

fun first :: "'a list \<Rightarrow> error + 'a" where
  "first [] = Inl IndexError"
| "first (x # xs) = Inr x"

definition bindS :: "error + 'a \<Rightarrow> ('a \<Rightarrow> error + 'b) \<Rightarrow> error + 'b" where
  "bindS m f = (case m of Inl e \<Rightarrow> Inl e | Inr a \<Rightarrow> f a)"

subsection \<open>USB descriptors, library calls and the trace\<close>

record interface =
  interfaceNumber :: int

record configuration =
  interfaces :: "interface list list"

text \<open>
  A device as \<^verbatim>\<open>usb.busses()\<close> lists it. \<open>devnum\<close> stands for the identity of
  the Python object: it tells the devices apart in the trace.
\<close>

record device =
  devnum :: nat
  idVendor :: int
  idProduct :: int
  configurations :: "configuration list"

record bus =
  devices :: "device list"

text \<open>
  The calls of the library. A device handle is named by the \<open>devnum\<close> of the device
  it was opened on. \<open>ControlMsg h requestType request buffer value index timeout\<close>.
\<close>

datatype usb_call =
    Busses
  | Open nat
  | DetachKernelDriver nat "interface option"
  | SetConfiguration nat configuration
  | ClaimInterface nat "interface option"
  | SetAltInterface nat "interface option"
  | ReleaseInterface nat
  | ControlMsg nat int int pyval int int int

datatype reply = Raise error | Return pyval

type_synonym trace = "usb_call list"
type_synonym env = "trace \<Rightarrow> usb_call \<Rightarrow> reply"

text \<open>A computation that may raise, in the state \<open>trace\<close>.\<close>

type_synonym 'a io = "trace \<Rightarrow> (error + 'a) \<times> trace"

definition usb :: "env \<Rightarrow> usb_call \<Rightarrow> pyval io" where
  "usb env c tr = (case env tr c of Raise e \<Rightarrow> (Inl e, tr @ [c]) | Return v \<Rightarrow> (Inr v, tr @ [c]))"

definition bindE :: "'a io \<Rightarrow> ('a \<Rightarrow> 'b io) \<Rightarrow> 'b io" where
  "bindE m f tr = (case m tr of (Inl e, tr') \<Rightarrow> (Inl e, tr') | (Inr a, tr') \<Rightarrow> f a tr')"

definition returnE :: "'a \<Rightarrow> 'a io" where
  "returnE a tr = (Inr a, tr)"

definition raiseE :: "error \<Rightarrow> 'a io" where
  "raiseE e tr = (Inl e, tr)"

definition liftE :: "error + 'a \<Rightarrow> 'a io" where
  "liftE r tr = (r, tr)"

text \<open>\<^verbatim>\<open>try: m  except: pass\<close>\<close>

definition try_pass :: "'a io \<Rightarrow> unit io" where
  "try_pass m tr = (Inr (), snd (m tr))"

subsection \<open>Constants of the module\<close>

definition GET_REPORT :: int where "GET_REPORT = 0x01"
definition SET_REPORT :: int where "SET_REPORT = 0x09"
definition HID_REQ_TO_HOST :: int where "HID_REQ_TO_HOST = 0xA1"
definition HID_REQ_TO_DEV :: int where "HID_REQ_TO_DEV = 0x21"
definition REPORT_TYPE_FEATURE :: int where "REPORT_TYPE_FEATURE = 0x300"

text \<open>\<^verbatim>\<open>class relayState\<close>: four integer constants.\<close>

definition relayState_off :: int where "relayState_off = 0"
definition relayState_on :: int where "relayState_on = 1"
definition relayState_noChange :: int where "relayState_noChange = 3"
definition relayState_toggle :: int where "relayState_toggle = 4"

definition GET_INFO :: "byte list" where
  "GET_INFO = [0x1D, 0x00, 0x00, 0x00, 0x00, 0x00, 0x00]"
definition SET_PORT_ON :: "byte list" where
  "SET_PORT_ON = [0xE7, 0x00, 0x00, 0x00, 0x00, 0x00, 0x00]"
definition SET_PORT_OFF :: "byte list" where
  "SET_PORT_OFF = [0xE7, 0x19, 0x00, 0x00, 0x00, 0x00, 0x00]"
definition GET_PORT :: "byte list" where
  "GET_PORT = [0x7E, 0x00, 0x00, 0x00, 0x00, 0x00, 0x00]"
definition REPORT_LEN :: int where "REPORT_LEN = 8"

subsection \<open>class mp709\<close>

text \<open>
  The attributes of an \<^verbatim>\<open>mp709\<close> object. \<^verbatim>\<open>__del__\<close> is not modelled: when
  Python finalises an object is not fixed by the program.
\<close>

record mp709 =
  handle :: "nat option"
  dev :: "device option"
  intf :: "interface option"
  intfNum :: int

text \<open>The dictionary \<^verbatim>\<open>{'family': .., 'version': .., 'id': ..}\<close> of \<^verbatim>\<open>getInfo\<close>.\<close>

record info =
  family :: int
  version :: int
  id' :: int

text \<open>\<^verbatim>\<open>self.handle.controlMsg(...)\<close>; \<^verbatim>\<open>self.handle\<close> may be \<^verbatim>\<open>None\<close>.\<close>

definition controlMsg :: "env \<Rightarrow> mp709 \<Rightarrow> int \<Rightarrow> int \<Rightarrow> pyval \<Rightarrow> int \<Rightarrow> int \<Rightarrow> int \<Rightarrow> pyval io" where
  "controlMsg env self requestType request buffer val index timeout =
     (case handle self of
        None \<Rightarrow> raiseE AttributeError
      | Some h \<Rightarrow> usb env (ControlMsg h requestType request buffer val index timeout))"

text \<open>\<^verbatim>\<open>close\<close> (lines 108-114); returns the object as the method leaves it.\<close>

definition close :: "env \<Rightarrow> mp709 \<Rightarrow> mp709 io" where
  "close env self =
     bindE (case handle self of
              Some h \<Rightarrow> usb env (ReleaseInterface h)
            | None \<Rightarrow> returnE PNone)
       (\<lambda>_. returnE (self\<lparr>handle := None, dev := None, intf := None\<rparr>))"

text \<open>
  \<^verbatim>\<open>open\<close> (lines 94-106). A failure of \<^verbatim>\<open>detachKernelDriver\<close> is swallowed by
  the bare \<^verbatim>\<open>except\<close>; the call is still in the trace.
\<close>

definition open_handle :: "env \<Rightarrow> mp709 \<Rightarrow> mp709 io" where
  "open_handle env self =
     bindE (case handle self of Some h \<Rightarrow> close env self | None \<Rightarrow> returnE self)
       (\<lambda>self. case dev self of
          None \<Rightarrow> raiseE AttributeError
        | Some d \<Rightarrow>
            bindE (usb env (Open (devnum d))) (\<lambda>_.
              let self = self\<lparr>handle := Some (devnum d)\<rparr>; h = devnum d in
              bindE (try_pass (usb env (DetachKernelDriver h (intf self)))) (\<lambda>_.
              bindE (liftE (first (configurations d))) (\<lambda>conf.
              bindE (usb env (SetConfiguration h conf)) (\<lambda>_.
              bindE (usb env (ClaimInterface h (intf self))) (\<lambda>_.
              bindE (usb env (SetAltInterface h (intf self))) (\<lambda>_.
                returnE self)))))))"

text \<open>\<^verbatim>\<open>setPort\<close> (lines 118-128).\<close>

definition setPort :: "env \<Rightarrow> mp709 \<Rightarrow> bool \<Rightarrow> int \<Rightarrow> pyval io" where
  "setPort env self state timeout =
     (let buffer = (if state then SET_PORT_ON else SET_PORT_OFF) in
      controlMsg env self HID_REQ_TO_DEV SET_REPORT (PBytes buffer)
        REPORT_TYPE_FEATURE (intfNum self) timeout)"

text \<open>The last three lines of \<^verbatim>\<open>getPort\<close> (145-147), on the buffer that was read.\<close>

definition getPort_decode :: "pyval \<Rightarrow> error + bool" where
  "getPort_decode buffer =
     (let portOn = (0x00 :: int); portOff = (0x19 :: int) in
      bindS (getitem buffer 1) (\<lambda>b1.
      bindS (getitem buffer 2) (\<lambda>b2.
        if b1 = b2 then bindS (getitem buffer 1) (\<lambda>b1'. Inr (b1' = portOn))
        else Inr False)))"

text \<open>\<^verbatim>\<open>getPort\<close> (lines 130-147).\<close>

definition getPort :: "env \<Rightarrow> mp709 \<Rightarrow> int \<Rightarrow> bool io" where
  "getPort env self timeout =
     bindE (controlMsg env self HID_REQ_TO_DEV SET_REPORT (PBytes GET_PORT)
              REPORT_TYPE_FEATURE (intfNum self) timeout)
       (\<lambda>_. bindE (controlMsg env self HID_REQ_TO_HOST GET_REPORT (PInt REPORT_LEN)
                     REPORT_TYPE_FEATURE (intfNum self) timeout)
          (\<lambda>buffer. liftE (getPort_decode buffer)))"

text \<open>The last lines of \<^verbatim>\<open>getInfo\<close> (164-168), on the buffer that was read.\<close>

definition getInfo_decode :: "pyval \<Rightarrow> error + info" where
  "getInfo_decode buffer =
     bindS (getitem buffer 1) (\<lambda>family.
     bindS (getitem buffer 2) (\<lambda>b2.
     bindS (getitem buffer 3) (\<lambda>b3.
     bindS (getitem buffer 7) (\<lambda>b7.
     bindS (getitem buffer 6) (\<lambda>b6.
     bindS (getitem buffer 5) (\<lambda>b5.
     bindS (getitem buffer 4) (\<lambda>b4.
       let version = b2 + b3 * 2 ^ 8;
           ident = b7 + b6 * 2 ^ 8 + b5 * 2 ^ 16 + b4 * 2 ^ 24
       in Inr \<lparr>family = family, version = version, id' = ident\<rparr>)))))))"

text \<open>\<^verbatim>\<open>getInfo\<close> (lines 149-168).\<close>

definition getInfo :: "env \<Rightarrow> mp709 \<Rightarrow> int \<Rightarrow> info io" where
  "getInfo env self timeout =
     bindE (controlMsg env self HID_REQ_TO_DEV SET_REPORT (PBytes GET_INFO)
              REPORT_TYPE_FEATURE (intfNum self) timeout)
       (\<lambda>_. bindE (controlMsg env self HID_REQ_TO_HOST GET_REPORT (PInt REPORT_LEN)
                     REPORT_TYPE_FEATURE (intfNum self) timeout)
          (\<lambda>buffer. liftE (getInfo_decode buffer)))"

text \<open>
  \<^verbatim>\<open>__init__\<close> (lines 59-75): the result is the constructed object, or the
  exception the constructor raises.
\<close>

definition mp709_init :: "env \<Rightarrow> device \<Rightarrow> int \<Rightarrow> mp709 io" where
  "mp709_init env device ident =
     (let self = \<lparr>handle = None, dev = None, intf = None, intfNum = 0\<rparr> in
      if idVendor device \<noteq> 0x16C0 \<or> idProduct device \<noteq> 0x05DF then raiseE ValueError
      else
        bindE (liftE (first (configurations device))) (\<lambda>conf.
        bindE (liftE (bindS (first (interfaces conf)) first)) (\<lambda>i.
          let self = self\<lparr>dev := Some device, intf := Some i,
                          intfNum := interfaceNumber i\<rparr> in
          bindE (open_handle env self) (\<lambda>self.
            if ident \<noteq> 0 then
              bindE (getInfo env self 100) (\<lambda>info.
                if id' info \<noteq> ident then
                  bindE (close env self) (\<lambda>_. raiseE ValueError)
                else returnE self)
            else returnE self))))"


text \<open>\<^verbatim>\<open>"%d" % n\<close> for an integer \<open>n\<close>.\<close>

fun string_of_nat :: "nat \<Rightarrow> string" where
  "string_of_nat n =
     (if n < 10 then [''0123456789'' ! n]
      else string_of_nat (n div 10) @ [''0123456789'' ! (n mod 10)])"

definition format_d :: "int \<Rightarrow> string" where
  "format_d n = (if n < 0 then ''-'' @ string_of_nat (nat (- n)) else string_of_nat (nat n))"

text \<open>\<^verbatim>\<open>__str__\<close> (lines 81-92); \<^verbatim>\<open>"%d" % True\<close> is \<^verbatim>\<open>"1"\<close>.\<close>

definition mp709_str :: "env \<Rightarrow> mp709 \<Rightarrow> string io" where
  "mp709_str env self =
     (case handle self of
        Some h \<Rightarrow>
          bindE (getInfo env self 100) (\<lambda>info.
            let str = '' '';
                str = str @ ''family ('' @ format_d (family info) @ ''), '';
                str = str @ ''fw version ('' @ format_d (version info) @ ''), '';
                str = str @ ''id ('' @ format_d (id' info) @ ''), ''
            in bindE (getPort env self 100) (\<lambda>p.
                 returnE (str @ ''state ('' @ format_d (if p then 1 else 0) @ '')'')))
      | None \<Rightarrow> returnE ''No MP709 device'')"

subsection \<open>The logger\<close>

text \<open>
  \<^verbatim>\<open>log.info(msg)\<close> of the standard \<^verbatim>\<open>logging\<close> module, for a logger whose
  effective level is \<open>level\<close>: the record is made, and \<^verbatim>\<open>str(msg)\<close> evaluated
  (once, by the handler that \<^verbatim>\<open>logging.basicConfig\<close> installs), only if
  \<^verbatim>\<open>INFO\<close> = 20 is at least that level. An exception raised while the record
  is formatted is handled inside the module and does not reach the caller. The text
  that is written to the log is not part of the model; the calls of the USB library
  made while \<^verbatim>\<open>str(msg)\<close> is evaluated are.
\<close>

definition log_info :: "int \<Rightarrow> string io \<Rightarrow> unit io" where
  "log_info level msg tr = (if level \<le> 20 then (Inr (), snd (msg tr)) else (Inr (), tr))"

subsection \<open>class relaysControl\<close>

record relaysControl =
  state :: int
  ctl_id :: int

text \<open>\<^verbatim>\<open>relaysControl.__init__\<close> (lines 172-174).\<close>

definition relaysControl_init :: relaysControl where
  "relaysControl_init = \<lparr>state = relayState_noChange, ctl_id = 0\<rparr>"

text \<open>
  The nested iteration of \<^verbatim>\<open>enumerateRelays\<close> (lines 179-187) over the busses and
  over the devices of a bus, \<open>relays\<close> being the list built so far. Only
  \<^verbatim>\<open>ValueError\<close> is caught.
\<close>

fun enumerate_devices :: "env \<Rightarrow> int \<Rightarrow> device list \<Rightarrow> mp709 list \<Rightarrow> mp709 list io" where
  "enumerate_devices env ident [] relays tr = (Inr relays, tr)"
| "enumerate_devices env ident (d # ds) relays tr =
     (case mp709_init env d ident tr of
        (Inl e, tr') \<Rightarrow>
          if e = ValueError then enumerate_devices env ident ds relays tr'
          else (Inl e, tr')
      | (Inr relay, tr') \<Rightarrow> enumerate_devices env ident ds (relays @ [relay]) tr')"

fun enumerate_busses :: "env \<Rightarrow> int \<Rightarrow> bus list \<Rightarrow> mp709 list \<Rightarrow> mp709 list io" where
  "enumerate_busses env ident [] relays tr = (Inr relays, tr)"
| "enumerate_busses env ident (b # bs) relays tr =
     (case enumerate_devices env ident (devices b) relays tr of
        (Inl e, tr') \<Rightarrow> (Inl e, tr')
      | (Inr relays', tr') \<Rightarrow> enumerate_busses env ident bs relays' tr')"

text \<open>
  \<^verbatim>\<open>enumerateRelays\<close> (lines 176-191). \<open>busses\<close> is what \<^verbatim>\<open>usb.busses()\<close>
  returns; the call is in the trace.
\<close>

definition enumerateRelays :: "env \<Rightarrow> bus list \<Rightarrow> relaysControl \<Rightarrow> mp709 list io" where
  "enumerateRelays env busses self =
     bindE (usb env Busses) (\<lambda>_.
     bindE (enumerate_busses env (ctl_id self) busses []) (\<lambda>relays.
       if length relays = 0 then raiseE RuntimeWarning else returnE relays))"

text \<open>The dictionary \<^verbatim>\<open>states\<close> of \<^verbatim>\<open>setState\<close>.\<close>

definition states :: "string \<rightharpoonup> int" where
  "states = [''on'' \<mapsto> relayState_on, ''off'' \<mapsto> relayState_off,
             ''noChange'' \<mapsto> relayState_noChange, ''toggle'' \<mapsto> relayState_toggle]"

text \<open>\<^verbatim>\<open>setState\<close> (lines 193-204).\<close>

definition setState :: "relaysControl \<Rightarrow> string \<Rightarrow> error + relaysControl" where
  "setState self state_in =
     (case states state_in of
        None \<Rightarrow> Inl (KeyError state_in)
      | Some st \<Rightarrow> Inr (self\<lparr>state := st\<rparr>))"

text \<open>\<^verbatim>\<open>setId\<close> (lines 206-207); \<open>py_int\<close> is Python's \<^verbatim>\<open>int\<close> on strings.\<close>

definition setId :: "(string \<Rightarrow> error + int) \<Rightarrow> relaysControl \<Rightarrow> string \<Rightarrow> error + relaysControl" where
  "setId py_int self ident = bindS (py_int ident) (\<lambda>n. Inr (self\<lparr>ctl_id := n\<rparr>))"

text \<open>\<^verbatim>\<open>controlRelays\<close> (lines 209-216), for a logger of effective level \<open>level\<close>.\<close>

fun controlRelays :: "env \<Rightarrow> int \<Rightarrow> relaysControl \<Rightarrow> mp709 list \<Rightarrow> unit io" where
  "controlRelays env level self [] = returnE ()"
| "controlRelays env level self (r # relays) =
     bindE (if state self = relayState_on \<or> state self = relayState_off then
              bindE (setPort env r (state self = relayState_on) 100) (\<lambda>_. returnE ())
            else if state self = relayState_toggle then
              bindE (getPort env r 100) (\<lambda>p.
              bindE (setPort env r (\<not> p) 100) (\<lambda>_. returnE ()))
            else returnE ())
       (\<lambda>_. bindE (log_info level (mp709_str env r))
          (\<lambda>_. controlRelays env level self relays))"

text \<open>\<^verbatim>\<open>relaysControl.main\<close> (lines 218-223).\<close>

definition relaysControl_main :: "env \<Rightarrow> int \<Rightarrow> bus list \<Rightarrow> relaysControl \<Rightarrow> unit io" where
  "relaysControl_main env level busses self =
     bindE (enumerateRelays env busses self) (\<lambda>relays. controlRelays env level self relays)"

subsection \<open>main(argv)\<close>

text \<open>
  The body of the loop over the options (lines 263-272), for one pair \<open>(opt, a)\<close> of
  the list that getopt returned. \<^verbatim>\<open>usage()\<close> ends in \<^verbatim>\<open>sys.exit(2)\<close> and
  \<^verbatim>\<open>version()\<close> in \<^verbatim>\<open>sys.exit(0)\<close>.
\<close>

datatype exc = Exit int | Exc error

definition option_step :: "(string \<Rightarrow> error + int) \<Rightarrow> string \<times> string \<Rightarrow> relaysControl \<Rightarrow> int
    \<Rightarrow> exc + relaysControl \<times> int" where
  "option_step py_int oa control verbose =
     (let opt = fst oa; a = snd oa in
      if opt = ''-h'' \<or> opt = ''--help'' then Inl (Exit 2)
      else if opt = ''-V'' \<or> opt = ''--version'' then Inl (Exit 0)
      else if opt = ''-s'' \<or> opt = ''--state'' then
        (case setState control a of
           Inl e \<Rightarrow> Inl (Exc e)
         | Inr control' \<Rightarrow> Inr (control', verbose))
      else if opt = ''-i'' \<or> opt = ''--id'' then
        (case setId py_int control a of
           Inl e \<Rightarrow> Inl (Exc e)
         | Inr control' \<Rightarrow> Inr (control', verbose))
      else if opt = ''-v'' \<or> opt = ''--verbose'' then
        Inr (control, max 0 (verbose - 10))
      else Inr (control, verbose))"

text \<open>The loop (lines 261-262): an exception ends it.\<close>

fun options :: "(string \<Rightarrow> error + int) \<Rightarrow> (string \<times> string) list \<Rightarrow> relaysControl \<Rightarrow> int
    \<Rightarrow> exc + relaysControl \<times> int" where
  "options py_int [] control verbose = Inr (control, verbose)"
| "options py_int (oa # opts) control verbose =
     (case option_step py_int oa control verbose of
        Inl e \<Rightarrow> Inl e
      | Inr (control', verbose') \<Rightarrow> options py_int opts control' verbose')"

text \<open>
  \<^verbatim>\<open>main\<close> from line 260 on: how the process ends, and the trace.
  \<^verbatim>\<open>SystemExit\<close> is passed on; every other exception ends in
  \<^verbatim>\<open>sys.exit(3)\<close>.
\<close>

datatype ending = Returned | SystemExit int

definition main :: "(string \<Rightarrow> error + int) \<Rightarrow> env \<Rightarrow> bus list \<Rightarrow> (string \<times> string) list
    \<Rightarrow> trace \<Rightarrow> ending \<times> trace" where
  "main py_int env busses opts tr =
     (let control = relaysControl_init; verbose = 30 in
      case options py_int opts control verbose of
        Inl (Exit n) \<Rightarrow> (SystemExit n, tr)
      | Inl (Exc e) \<Rightarrow> (SystemExit 3, tr)
      | Inr (control, verbose) \<Rightarrow>
          (case relaysControl_main env verbose busses control tr of
             (Inl e, tr') \<Rightarrow> (SystemExit 3, tr')
           | (Inr u, tr') \<Rightarrow> (Returned, tr')))"

subsection \<open>The round trip of claim C2 and the examples\<close>

text \<open>
  An 8-byte response in the layout the specification documents: the family at byte 1,
  the version little-endian in bytes 2-3, the id big-endian in bytes 4-7. Byte 0 is free.
\<close>

definition info_response :: "byte \<Rightarrow> int \<Rightarrow> int \<Rightarrow> int \<Rightarrow> byte list" where
  "info_response b0 f v i =
     [b0, word_of_int f,
      word_of_int (v mod 256), word_of_int (v div 256),
      word_of_int (i div 2 ^ 24), word_of_int (i div 2 ^ 16 mod 256),
      word_of_int (i div 2 ^ 8 mod 256), word_of_int (i mod 256)]"

text \<open>
  For the examples: a library on which every call returns, an incoming control transfer
  always delivering the bytes \<open>response\<close>; a descriptor with the identity of the
  MP709; and an \<^verbatim>\<open>mp709\<close> object as the constructor leaves it on that descriptor.
\<close>

fun board :: "byte list \<Rightarrow> env" where
  "board response tr (ControlMsg h requestType request (PInt n) val index timeout) =
     Return (PBytes response)"
| "board response tr (ControlMsg h requestType request (PBytes bs) val index timeout) =
     Return (PInt (int (length bs)))"
| "board response tr c = Return PNone"

definition relay_device :: "nat \<Rightarrow> device" where
  "relay_device n =
     \<lparr>devnum = n, idVendor = 0x16C0, idProduct = 0x05DF,
      configurations = [\<lparr>interfaces = [[\<lparr>interfaceNumber = 0\<rparr>]]\<rparr>]\<rparr>"

definition relay_client :: "nat \<Rightarrow> mp709" where
  "relay_client n =
     \<lparr>handle = Some n, dev = Some (relay_device n),
      intf = Some \<lparr>interfaceNumber = 0\<rparr>, intfNum = 0\<rparr>"

subsection \<open>Observing the trace\<close>

text \<open>
  What the claims say about calls is read off the trace. A call \<open>sends cmd\<close> if it is
  a control transfer whose buffer is the command \<open>cmd\<close>; only \<^verbatim>\<open>setPort\<close> sends
  \<^verbatim>\<open>SET_PORT_ON\<close> and \<^verbatim>\<open>SET_PORT_OFF\<close>, and only \<^verbatim>\<open>getPort\<close> sends
  \<^verbatim>\<open>GET_PORT\<close>. \<open>setPort_calls h st es\<close> counts in \<open>es\<close> the transfers of
  \<^verbatim>\<open>setPort(st)\<close> on the handle \<open>h\<close>, and \<open>setPort_call\<close> is the transfer that
  \<^verbatim>\<open>setPort\<close> makes.
\<close>

fun sends :: "byte list \<Rightarrow> usb_call \<Rightarrow> bool" where
  "sends cmd (ControlMsg h requestType request buffer val index timeout) = (buffer = PBytes cmd)"
| "sends cmd c = False"

fun on_handle :: "nat \<Rightarrow> usb_call \<Rightarrow> bool" where
  "on_handle h (ControlMsg h' requestType request buffer val index timeout) = (h' = h)"
| "on_handle h c = False"

fun is_controlMsg :: "usb_call \<Rightarrow> bool" where
  "is_controlMsg (ControlMsg h requestType request buffer val index timeout) = True"
| "is_controlMsg c = False"

definition is_setPort :: "nat \<Rightarrow> bool \<Rightarrow> usb_call \<Rightarrow> bool" where
  "is_setPort h st c = (on_handle h c \<and> sends (if st then SET_PORT_ON else SET_PORT_OFF) c)"

definition setPort_calls :: "nat \<Rightarrow> bool \<Rightarrow> trace \<Rightarrow> nat" where
  "setPort_calls h st es = length (filter (is_setPort h st) es)"

definition port_call :: "usb_call \<Rightarrow> bool" where
  "port_call c = (sends SET_PORT_ON c \<or> sends SET_PORT_OFF c \<or> sends GET_PORT c)"


text \<open>\<open>emits P m\<close>: the computation \<open>m\<close> only adds calls to the trace, and every
  call it adds satisfies \<open>P\<close>.\<close>

definition emits :: "(usb_call \<Rightarrow> bool) \<Rightarrow> 'a io \<Rightarrow> bool" where
  "emits P m = (\<forall>tr. \<exists>es. snd (m tr) = tr @ es \<and> list_all P es)"

section \<open>Properties\<close>

lemmas io_defs = bindE_def returnE_def raiseE_def liftE_def usb_def try_pass_def
lemmas const_defs = GET_REPORT_def SET_REPORT_def HID_REQ_TO_HOST_def HID_REQ_TO_DEV_def
  REPORT_TYPE_FEATURE_def REPORT_LEN_def

lemma getPort_decode_bytes:
  "getPort_decode (PBytes b) =
     (if length b < 3 then Inl IndexError else Inr (b ! 1 = b ! 2 \<and> b ! 1 = 0x00))"
proof (cases "length b < 3")
  case True
  then show ?thesis
    by (simp add: getPort_decode_def bindS_def Let_def)
next
  case False
  have e: "(uint (b ! 1) = uint (b ! 2)) = (b ! 1 = b ! 2)"
    by (rule word_uint_eq_iff [symmetric])
  from False show ?thesis
    unfolding getPort_decode_def bindS_def Let_def
    by (simp add: e uint_0_iff del: One_nat_def)
qed

lemma getInfo_decode_bytes:
  "getInfo_decode (PBytes b) =
     (if length b < 8 then Inl IndexError
      else Inr \<lparr>family = uint (b ! 1),
                 version = uint (b ! 2) + uint (b ! 3) * 256,
                 id' = uint (b ! 7) + uint (b ! 6) * 256 + uint (b ! 5) * 65536
                        + uint (b ! 4) * 16777216\<rparr>)"
  unfolding getInfo_decode_def bindS_def Let_def
  by (simp del: One_nat_def)

lemma getPort_replies:
  assumes "handle self = Some h"
    and "env tr (ControlMsg h HID_REQ_TO_DEV SET_REPORT (PBytes GET_PORT) REPORT_TYPE_FEATURE
           (intfNum self) timeout) = Return v"
    and "env (tr @ [ControlMsg h HID_REQ_TO_DEV SET_REPORT (PBytes GET_PORT) REPORT_TYPE_FEATURE
           (intfNum self) timeout])
          (ControlMsg h HID_REQ_TO_HOST GET_REPORT (PInt REPORT_LEN) REPORT_TYPE_FEATURE
           (intfNum self) timeout) = Return buffer"
  shows "getPort env self timeout tr =
          (getPort_decode buffer,
           tr @ [ControlMsg h HID_REQ_TO_DEV SET_REPORT (PBytes GET_PORT) REPORT_TYPE_FEATURE
                   (intfNum self) timeout,
                 ControlMsg h HID_REQ_TO_HOST GET_REPORT (PInt REPORT_LEN) REPORT_TYPE_FEATURE
                   (intfNum self) timeout])"
  using assms by (simp add: getPort_def controlMsg_def io_defs)

lemma getInfo_replies:
  assumes "handle self = Some h"
    and "env tr (ControlMsg h HID_REQ_TO_DEV SET_REPORT (PBytes GET_INFO) REPORT_TYPE_FEATURE
           (intfNum self) timeout) = Return v"
    and "env (tr @ [ControlMsg h HID_REQ_TO_DEV SET_REPORT (PBytes GET_INFO) REPORT_TYPE_FEATURE
           (intfNum self) timeout])
          (ControlMsg h HID_REQ_TO_HOST GET_REPORT (PInt REPORT_LEN) REPORT_TYPE_FEATURE
           (intfNum self) timeout) = Return buffer"
  shows "getInfo env self timeout tr =
          (getInfo_decode buffer,
           tr @ [ControlMsg h HID_REQ_TO_DEV SET_REPORT (PBytes GET_INFO) REPORT_TYPE_FEATURE
                   (intfNum self) timeout,
                 ControlMsg h HID_REQ_TO_HOST GET_REPORT (PInt REPORT_LEN) REPORT_TYPE_FEATURE
                   (intfNum self) timeout])"
  using assms by (simp add: getInfo_def controlMsg_def io_defs)

lemma be32: "(i::int) mod 256 + i div 2 ^ 8 mod 256 * 256 + i div 2 ^ 16 mod 256 * 65536
              + i div 2 ^ 24 * 16777216 = i"
proof -
  define a where "a = i div 256"
  define b where "b = a div 256"
  define c where "c = b div 256"
  have b: "i div 65536 = b" unfolding b_def a_def by (simp add: zdiv_zmult2_eq)
  have c: "i div 16777216 = c" unfolding c_def b_def a_def by (simp add: zdiv_zmult2_eq)
  have 1: "i = a * 256 + i mod 256" unfolding a_def by simp
  have 2: "a = b * 256 + a mod 256" unfolding b_def by simp
  have 3: "b = c * 256 + b mod 256" unfolding c_def by simp
  have "i mod 256 + a mod 256 * 256 + b mod 256 * 65536 + c * 16777216 = i"
    using 1 2 3 by algebra
  then show ?thesis using b c by (simp add: a_def)
qed

lemma uint_byte: "0 \<le> x \<Longrightarrow> x < 256 \<Longrightarrow> uint (word_of_int x :: byte) = x"
  by (simp add: uint_word_of_int take_bit_eq_mod)

lemma uint_byte_mod: "uint (word_of_int (x mod 256) :: byte) = x mod 256"
  by (rule uint_byte) simp_all

lemma info_response_decode:
  assumes "0 \<le> f" "f \<le> 255" "0 \<le> v" "v \<le> 65535" "0 \<le> i" "i \<le> 2 ^ 32 - 1"
  shows "getInfo_decode (PBytes (info_response b0 f v i)) = Inr \<lparr>family = f, version = v, id' = i\<rparr>"
proof -
  have bf: "uint (word_of_int f :: byte) = f"
    using assms(1,2) by (intro uint_byte) simp_all
  have "v div 256 < 256" using assms(4) by simp
  moreover have "0 \<le> v div 256" using assms(3) by simp
  ultimately have bv: "uint (word_of_int (v div 256) :: byte) = v div 256"
    by (intro uint_byte)
  have "i div 2 ^ 24 < 256" using assms(6) by simp
  moreover have "0 \<le> i div 2 ^ 24" using assms(5) by simp
  ultimately have bi: "uint (word_of_int (i div 2 ^ 24) :: byte) = i div 2 ^ 24"
    by (intro uint_byte)
  have ver: "v mod 256 + v div 256 * 256 = v" by simp
  have len: "\<not> length (info_response b0 f v i) < 8"
    by (simp add: info_response_def)
  have nth: "info_response b0 f v i ! 1 = word_of_int f"
    "info_response b0 f v i ! 2 = word_of_int (v mod 256)"
    "info_response b0 f v i ! 3 = word_of_int (v div 256)"
    "info_response b0 f v i ! 4 = word_of_int (i div 2 ^ 24)"
    "info_response b0 f v i ! 5 = word_of_int (i div 2 ^ 16 mod 256)"
    "info_response b0 f v i ! 6 = word_of_int (i div 2 ^ 8 mod 256)"
    "info_response b0 f v i ! 7 = word_of_int (i mod 256)"
    by (simp_all add: info_response_def)
  show ?thesis
    unfolding getInfo_decode_bytes nth if_not_P [OF len] bf bv bi uint_byte_mod
    using ver be32 [of i] by simp
qed

subsection \<open>Decoding the responses\<close>

text \<open>
  Claim C1. When the device answers the \<^verbatim>\<open>GET_PORT\<close> exchange with an 8-byte
  buffer, \<^verbatim>\<open>getPort\<close> returns \<^verbatim>\<open>True\<close> if and only if byte 1 equals byte 2 and
  byte 1 is \<open>0x00\<close>; for every other pair of bytes 1 and 2 it returns \<^verbatim>\<open>False\<close>.
  The same holds of the decoding lines alone.
\<close>

theorem getPort_true_iff_both_zero:
  assumes "length buffer = 8"
    and "handle self = Some h"
    and "env tr (ControlMsg h HID_REQ_TO_DEV SET_REPORT (PBytes GET_PORT) REPORT_TYPE_FEATURE
           (intfNum self) timeout) = Return v"
    and "env (tr @ [ControlMsg h HID_REQ_TO_DEV SET_REPORT (PBytes GET_PORT) REPORT_TYPE_FEATURE
           (intfNum self) timeout])
          (ControlMsg h HID_REQ_TO_HOST GET_REPORT (PInt REPORT_LEN) REPORT_TYPE_FEATURE
           (intfNum self) timeout) = Return (PBytes buffer)"
  shows "getPort_decode (PBytes buffer) = Inr (buffer ! 1 = buffer ! 2 \<and> buffer ! 1 = 0x00)
       \<and> fst (getPort env self timeout tr) = Inr (buffer ! 1 = buffer ! 2 \<and> buffer ! 1 = 0x00)"
  using assms(1) getPort_replies [OF assms(2-4)] by (simp add: getPort_decode_bytes)

theorem getPort_true_iff_both_zero_witness:
  "fst (getPort (board [0x7E, 0x00, 0x00, 0, 0, 0, 0, 0]) (relay_client 1) 100 []) = Inr True
   \<and> fst (getPort (board [0x7E, 0x19, 0x19, 0, 0, 0, 0, 0]) (relay_client 1) 100 []) = Inr False
   \<and> fst (getPort (board [0x7E, 0x00, 0x19, 0, 0, 0, 0, 0]) (relay_client 1) 100 []) = Inr False"
  using getPort_true_iff_both_zero [of "[0x7E, 0x00, 0x00, 0, 0, 0, 0, 0]" "relay_client 1" 1
      "board [0x7E, 0x00, 0x00, 0, 0, 0, 0, 0]" "[]" 100 "PInt 7"]
    getPort_true_iff_both_zero [of "[0x7E, 0x19, 0x19, 0, 0, 0, 0, 0]" "relay_client 1" 1
      "board [0x7E, 0x19, 0x19, 0, 0, 0, 0, 0]" "[]" 100 "PInt 7"]
    getPort_true_iff_both_zero [of "[0x7E, 0x00, 0x19, 0, 0, 0, 0, 0]" "relay_client 1" 1
      "board [0x7E, 0x00, 0x19, 0, 0, 0, 0, 0]" "[]" 100 "PInt 7"]
  by (simp add: relay_client_def GET_PORT_def REPORT_LEN_def)

text \<open>
  Claim C2. For a family in \<open>[0, 255]\<close>, a version in \<open>[0, 65535]\<close> and an id in
  \<open>[0, 2\<^sup>3\<^sup>2 - 1]\<close>, the 8-byte response that carries them in the documented
  layout is decoded by \<^verbatim>\<open>getInfo\<close> to exactly these three values.
\<close>

theorem getInfo_round_trip:
  assumes "0 \<le> f" "f \<le> 255" "0 \<le> v" "v \<le> 65535" "0 \<le> i" "i \<le> 2 ^ 32 - 1"
    and "handle self = Some h"
    and "env tr (ControlMsg h HID_REQ_TO_DEV SET_REPORT (PBytes GET_INFO) REPORT_TYPE_FEATURE
           (intfNum self) timeout) = Return r"
    and "env (tr @ [ControlMsg h HID_REQ_TO_DEV SET_REPORT (PBytes GET_INFO) REPORT_TYPE_FEATURE
           (intfNum self) timeout])
          (ControlMsg h HID_REQ_TO_HOST GET_REPORT (PInt REPORT_LEN) REPORT_TYPE_FEATURE
           (intfNum self) timeout) = Return (PBytes (info_response b0 f v i))"
  shows "getInfo_decode (PBytes (info_response b0 f v i))
           = Inr \<lparr>family = f, version = v, id' = i\<rparr>
       \<and> fst (getInfo env self timeout tr) = Inr \<lparr>family = f, version = v, id' = i\<rparr>"
  using info_response_decode [OF assms(1-6)] getInfo_replies [OF assms(7-9)] by simp

theorem getInfo_round_trip_witness:
  "info_response 0x1D 5 258 3758 = [0x1D, 5, 2, 1, 0, 0, 0x0E, 0xAE]
   \<and> fst (getInfo (board (info_response 0x1D 5 258 3758)) (relay_client 1) 100 [])
       = Inr \<lparr>family = 5, version = 258, id' = 3758\<rparr>"
  using getInfo_round_trip [of 5 258 3758 "relay_client 1" 1
      "board (info_response 0x1D 5 258 3758)" "[]" 100 "PInt 7" "0x1D"]
  by (simp add: relay_client_def GET_INFO_def REPORT_LEN_def info_response_def)

text \<open>
  Claim C6 says that a response whose length is not 8 is refused. The program has no
  check of the length: a 3-byte response is decoded by \<^verbatim>\<open>getPort\<close>.
\<close>

theorem short_response_decoded_counterexample:
  "length [0x7E, 0x00, 0x00 :: byte] \<noteq> 8
   \<and> getPort_decode (PBytes [0x7E, 0x00, 0x00]) = Inr True
   \<and> fst (getPort (board [0x7E, 0x00, 0x00]) (relay_client 1) 100 []) = Inr True"
  by (simp add: getPort_decode_bytes getPort_def controlMsg_def io_defs relay_client_def
      const_defs GET_PORT_def)

text \<open>
  Claim C6, amended. The decoding lines of \<^verbatim>\<open>getInfo\<close> raise \<^verbatim>\<open>IndexError\<close> on
  every response shorter than 8 bytes, those of \<^verbatim>\<open>getPort\<close> on every response shorter
  than 3 bytes, and then return no value at all; a response of any other length is
  decoded from its bytes 1 to 7, respectively 1 and 2.
\<close>

theorem decode_length:
  "getInfo_decode (PBytes b) =
     (if length b < 8 then Inl IndexError
      else Inr \<lparr>family = uint (b ! 1),
                 version = uint (b ! 2) + uint (b ! 3) * 256,
                 id' = uint (b ! 7) + uint (b ! 6) * 256 + uint (b ! 5) * 65536
                        + uint (b ! 4) * 16777216\<rparr>)
   \<and> getPort_decode (PBytes b) =
     (if length b < 3 then Inl IndexError else Inr (b ! 1 = b ! 2 \<and> b ! 1 = 0x00))"
  by (simp only: getInfo_decode_bytes getPort_decode_bytes)

theorem decode_length_witness:
  "getInfo_decode (PBytes [0x1D, 5, 2, 1, 0, 0, 0x0E]) = Inl IndexError
   \<and> getPort_decode (PBytes [0x7E, 0x00]) = Inl IndexError
   \<and> getInfo_decode (PBytes [0x1D, 5, 2, 1, 0, 0, 0x0E, 0xAE, 0xFF])
       = Inr \<lparr>family = 5, version = 258, id' = 3758\<rparr>
   \<and> getPort_decode (PBytes [0x7E, 0x00, 0x00, 0x00]) = Inr True"
  using decode_length [of "[0x1D, 5, 2, 1, 0, 0, 0x0E]"] decode_length [of "[0x7E, 0x00]"]
    decode_length [of "[0x1D, 5, 2, 1, 0, 0, 0x0E, 0xAE, 0xFF]"]
    decode_length [of "[0x7E, 0x00, 0x00, 0x00]"]
  by simp

subsection \<open>The constructor\<close>

text \<open>
  Claim C5. A device whose vendor id or product id differs from \<open>(0x16C0, 0x05DF)\<close>
  is rejected by the constructor with \<^verbatim>\<open>ValueError\<close>, whatever the target id, and the
  trace is left as it was: the rejection comes before the device is opened.
\<close>

theorem wrong_identity_rejected:
  assumes "idVendor d \<noteq> 0x16C0 \<or> idProduct d \<noteq> 0x05DF"
  shows "mp709_init env d ident tr = (Inl ValueError, tr)"
  using assms by (auto simp: mp709_init_def raiseE_def)

theorem wrong_identity_rejected_witness:
  "mp709_init (board []) ((relay_device 1)\<lparr>idProduct := 0x05DC\<rparr>) 0 [] = (Inl ValueError, [])
   \<and> mp709_init (board []) ((relay_device 1)\<lparr>idVendor := 0x046D\<rparr>) 3758 [Busses]
       = (Inl ValueError, [Busses])"
  using wrong_identity_rejected [of "(relay_device 1)\<lparr>idProduct := 0x05DC\<rparr>" "board []" 0 "[]"]
    wrong_identity_rejected [of "(relay_device 1)\<lparr>idVendor := 0x046D\<rparr>" "board []" 3758 "[Busses]"]
  by (simp add: relay_device_def)

subsection \<open>What a computation adds to the trace\<close>

lemma emitsD: "emits P m \<Longrightarrow> \<exists>es. snd (m tr) = tr @ es \<and> list_all P es"
  by (simp add: emits_def)

lemma emits_returnE: "emits P (returnE a)"
  by (simp add: emits_def returnE_def)

lemma emits_raiseE: "emits P (raiseE e)"
  by (simp add: emits_def raiseE_def)

lemma emits_liftE: "emits P (liftE r)"
  by (simp add: emits_def liftE_def)

lemma emits_usb: "P c \<Longrightarrow> emits P (usb env c)"
  by (simp add: emits_def usb_def split: reply.split)

lemma emits_bindE:
  assumes "emits P m" and "\<And>a. emits P (f a)"
  shows "emits P (bindE m f)"
proof (unfold emits_def, intro allI)
  fix tr
  obtain es where es: "snd (m tr) = tr @ es" "list_all P es"
    using emitsD [OF assms(1)] by blast
  show "\<exists>es. snd (bindE m f tr) = tr @ es \<and> list_all P es"
  proof (cases "m tr")
    case (Pair r tr')
    with es have tr': "tr' = tr @ es" by simp
    show ?thesis
    proof (cases r)
      case (Inl e)
      with Pair tr' es show ?thesis by (simp add: bindE_def)
    next
      case (Inr a)
      obtain es' where es': "snd (f a tr') = tr' @ es'" "list_all P es'"
        using emitsD [OF assms(2)] by blast
      with Inr Pair tr' es show ?thesis by (simp add: bindE_def)
    qed
  qed
qed

lemma emits_try_pass: "emits P m \<Longrightarrow> emits P (try_pass m)"
  by (simp add: emits_def try_pass_def)

lemma emits_log_info: "emits P m \<Longrightarrow> emits P (log_info level m)"
  by (simp add: emits_def log_info_def)

lemmas emits_intros = emits_bindE emits_returnE emits_raiseE emits_liftE emits_try_pass
  emits_log_info

lemma emits_controlMsg:
  "(\<And>h. P (ControlMsg h requestType request buffer val index timeout))
   \<Longrightarrow> emits P (controlMsg env self requestType request buffer val index timeout)"
  by (cases "handle self") (simp_all add: controlMsg_def emits_raiseE emits_usb)

lemma emits_close: "(\<And>h. P (ReleaseInterface h)) \<Longrightarrow> emits P (close env self)"
  unfolding close_def
  by (cases "handle self") (auto intro!: emits_intros emits_usb)

lemma emits_open_handle: "emits (\<lambda>c. \<not> is_controlMsg c) (open_handle env self)"
  unfolding open_handle_def Let_def
  by (auto intro!: emits_intros emits_usb emits_close split: option.split)

lemma emits_getInfo:
  "(\<And>h requestType request val index timeout.
      P (ControlMsg h requestType request (PBytes GET_INFO) val index timeout))
   \<Longrightarrow> (\<And>h requestType request n val index timeout.
      P (ControlMsg h requestType request (PInt n) val index timeout))
   \<Longrightarrow> emits P (getInfo env self timeout)"
  unfolding getInfo_def
  by (intro emits_intros emits_controlMsg) simp_all

lemma emits_getPort:
  "(\<And>h requestType request val index timeout.
      P (ControlMsg h requestType request (PBytes GET_PORT) val index timeout))
   \<Longrightarrow> (\<And>h requestType request n val index timeout.
      P (ControlMsg h requestType request (PInt n) val index timeout))
   \<Longrightarrow> emits P (getPort env self timeout)"
  unfolding getPort_def
  by (intro emits_intros emits_controlMsg) simp_all

lemma not_setPort_GET_INFO:
  "\<not> is_setPort h st (ControlMsg h' requestType request (PBytes GET_INFO) val index timeout)"
  by (simp add: is_setPort_def GET_INFO_def SET_PORT_ON_def SET_PORT_OFF_def)

lemma not_setPort_GET_PORT:
  "\<not> is_setPort h st (ControlMsg h' requestType request (PBytes GET_PORT) val index timeout)"
  by (simp add: is_setPort_def GET_PORT_def SET_PORT_ON_def SET_PORT_OFF_def)

lemma not_setPort_PInt:
  "\<not> is_setPort h st (ControlMsg h' requestType request (PInt n) val index timeout)"
  by (simp add: is_setPort_def)

lemmas not_setPort = not_setPort_GET_INFO not_setPort_GET_PORT not_setPort_PInt

lemma emits_mp709_str: "emits (\<lambda>c. \<not> is_setPort h st c) (mp709_str env self)"
  unfolding mp709_str_def Let_def
  by (auto intro!: emits_intros emits_getInfo emits_getPort simp: not_setPort split: option.split)

lemmas relayState_defs = relayState_on_def relayState_off_def relayState_noChange_def
  relayState_toggle_def



lemma setPort_calls_none: "list_all (\<lambda>c. \<not> is_setPort h st c) es \<Longrightarrow> setPort_calls h st es = 0"
  by (induction es) (simp_all add: setPort_calls_def)




lemma str_no_setPort:
  "\<exists>es. snd (mp709_str env self tr) = tr @ es \<and> (\<forall>st. setPort_calls h st es = 0)"
proof -
  have "emits (\<lambda>c. \<forall>st. \<not> is_setPort h st c) (mp709_str env self)"
    unfolding mp709_str_def Let_def
    by (auto intro!: emits_intros emits_getInfo emits_getPort simp: not_setPort
        split: option.split)
  then obtain es where es: "snd (mp709_str env self tr) = tr @ es"
    "list_all (\<lambda>c. \<forall>st. \<not> is_setPort h st c) es"
    using emitsD by blast
  have "setPort_calls h st es = 0" for st
    using es(2) by (intro setPort_calls_none) (simp add: list_all_iff)
  with es(1) show ?thesis by blast
qed


subsection \<open>The control pass\<close>



lemma noChange_pass:
  assumes "state self = relayState_noChange"
  shows "controlRelays env level self [r] tr
          = (Inr (), if level \<le> 20 then snd (mp709_str env r tr) else tr)"
  using assms by (simp add: bindE_def returnE_def log_info_def relayState_defs)

lemma on_off_pass:
  assumes "state self = relayState_on \<or> state self = relayState_off"
    and "setPort env r (state self = relayState_on) 100 tr = (Inr v, tr1)"
  shows "controlRelays env level self [r] tr
          = (Inr (), if level \<le> 20 then snd (mp709_str env r tr1) else tr1)"
  using assms by (auto simp: bindE_def returnE_def log_info_def)

text \<open>
  Claim C9, amended. With one client and the policy \<^verbatim>\<open>noChange\<close>, the pass makes no
  \<^verbatim>\<open>setPort\<close> transfer, and it ends normally. When the effective level of the
  logger admits \<^verbatim>\<open>INFO\<close> records (\<open>level \<le> 20\<close>) the calls it makes are exactly
  those of one evaluation of \<^verbatim>\<open>__str__\<close> on the client; at a higher level, such as
  the default 30 of \<^verbatim>\<open>main\<close>, it makes no call at all. Under the policies
  \<^verbatim>\<open>on\<close> and \<^verbatim>\<open>off\<close> the same status calls come after the
  \<^verbatim>\<open>setPort\<close> transfer of the client.
\<close>

theorem noChange_describe_only_when_logged:
  "(state self = relayState_noChange \<longrightarrow>
      controlRelays env level self [r] tr
        = (Inr (), if level \<le> 20 then snd (mp709_str env r tr) else tr)
      \<and> setPort_calls h st (drop (length tr) (snd (controlRelays env level self [r] tr))) = 0)
   \<and> ((state self = relayState_on \<or> state self = relayState_off) \<longrightarrow>
        setPort env r (state self = relayState_on) 100 tr = (Inr v, tr1) \<longrightarrow>
      controlRelays env level self [r] tr
        = (Inr (), if level \<le> 20 then snd (mp709_str env r tr1) else tr1))"
proof (intro conjI impI)
  assume nc: "state self = relayState_noChange"
  show eq: "controlRelays env level self [r] tr
        = (Inr (), if level \<le> 20 then snd (mp709_str env r tr) else tr)"
    by (rule noChange_pass [OF nc])
  obtain es where es: "snd (mp709_str env r tr) = tr @ es" "\<forall>st. setPort_calls h st es = 0"
    using str_no_setPort by blast
  show "setPort_calls h st (drop (length tr) (snd (controlRelays env level self [r] tr))) = 0"
  proof (cases "level \<le> 20")
    case True
    with eq es show ?thesis by simp
  next
    case False
    with eq show ?thesis by (simp add: setPort_calls_def)
  qed
next
  assume "state self = relayState_on \<or> state self = relayState_off"
    and "setPort env r (state self = relayState_on) 100 tr = (Inr v, tr1)"
  then show "controlRelays env level self [r] tr
        = (Inr (), if level \<le> 20 then snd (mp709_str env r tr1) else tr1)"
    by (rule on_off_pass)
qed

text \<open>
  Claim C9 says that the pass makes one status call per client. At the level 30 that
  \<^verbatim>\<open>main\<close> sets when no \<^verbatim>\<open>-v\<close> is given, \<^verbatim>\<open>log.info(r)\<close> does not evaluate
  \<^verbatim>\<open>str(r)\<close>: the pass over one client makes no call, where one evaluation of
  \<^verbatim>\<open>__str__\<close> makes four transfers; and a whole run on one matching device, without
  options, makes no control transfer.
\<close>

theorem noChange_default_level_counterexample:
  "controlRelays (board [0x1D, 5, 2, 1, 0, 0, 0x0E, 0xAE]) 30
      \<lparr>state = relayState_noChange, ctl_id = 0\<rparr> [relay_client 1] [] = (Inr (), [])
   \<and> snd (mp709_str (board [0x1D, 5, 2, 1, 0, 0, 0x0E, 0xAE]) (relay_client 1) [])
       = [ControlMsg 1 0x21 0x09 (PBytes GET_INFO) 0x300 0 100,
          ControlMsg 1 0xA1 0x01 (PInt 8) 0x300 0 100,
          ControlMsg 1 0x21 0x09 (PBytes GET_PORT) 0x300 0 100,
          ControlMsg 1 0xA1 0x01 (PInt 8) 0x300 0 100]
   \<and> main (\<lambda>s. Inl ValueError) (board [0x1D, 5, 2, 1, 0, 0, 0x0E, 0xAE])
        [\<lparr>devices = [relay_device 1]\<rparr>] [] []
       = (Returned,
          [Busses, Open 1, DetachKernelDriver 1 (Some \<lparr>interfaceNumber = 0\<rparr>),
           SetConfiguration 1 \<lparr>interfaces = [[\<lparr>interfaceNumber = 0\<rparr>]]\<rparr>,
           ClaimInterface 1 (Some \<lparr>interfaceNumber = 0\<rparr>),
           SetAltInterface 1 (Some \<lparr>interfaceNumber = 0\<rparr>)])"
proof (intro conjI)
  show "controlRelays (board [0x1D, 5, 2, 1, 0, 0, 0x0E, 0xAE]) 30
      \<lparr>state = relayState_noChange, ctl_id = 0\<rparr> [relay_client 1] [] = (Inr (), [])"
    by (simp add: bindE_def returnE_def log_info_def relayState_defs)
  show "snd (mp709_str (board [0x1D, 5, 2, 1, 0, 0, 0x0E, 0xAE]) (relay_client 1) [])
       = [ControlMsg 1 0x21 0x09 (PBytes GET_INFO) 0x300 0 100,
          ControlMsg 1 0xA1 0x01 (PInt 8) 0x300 0 100,
          ControlMsg 1 0x21 0x09 (PBytes GET_PORT) 0x300 0 100,
          ControlMsg 1 0xA1 0x01 (PInt 8) 0x300 0 100]"
    by (simp add: mp709_str_def getInfo_def getPort_def controlMsg_def io_defs
        getInfo_decode_bytes getPort_decode_bytes relay_client_def const_defs
        GET_INFO_def GET_PORT_def Let_def)
  show "main (\<lambda>s. Inl ValueError) (board [0x1D, 5, 2, 1, 0, 0, 0x0E, 0xAE])
        [\<lparr>devices = [relay_device 1]\<rparr>] [] []
       = (Returned,
          [Busses, Open 1, DetachKernelDriver 1 (Some \<lparr>interfaceNumber = 0\<rparr>),
           SetConfiguration 1 \<lparr>interfaces = [[\<lparr>interfaceNumber = 0\<rparr>]]\<rparr>,
           ClaimInterface 1 (Some \<lparr>interfaceNumber = 0\<rparr>),
           SetAltInterface 1 (Some \<lparr>interfaceNumber = 0\<rparr>)])"
    by (simp add: main_def relaysControl_init_def relaysControl_main_def enumerateRelays_def
        mp709_init_def open_handle_def io_defs bindS_def log_info_def relay_device_def
        relayState_defs Let_def)
qed

theorem noChange_describe_only_when_logged_witness:
  "controlRelays (board [0x1D, 5, 2, 1, 0, 0, 0x0E, 0xAE]) 20
      \<lparr>state = relayState_noChange, ctl_id = 0\<rparr> [relay_client 1] []
     = (Inr (), [ControlMsg 1 0x21 0x09 (PBytes GET_INFO) 0x300 0 100,
                 ControlMsg 1 0xA1 0x01 (PInt 8) 0x300 0 100,
                 ControlMsg 1 0x21 0x09 (PBytes GET_PORT) 0x300 0 100,
                 ControlMsg 1 0xA1 0x01 (PInt 8) 0x300 0 100])
   \<and> controlRelays (board [0x1D, 5, 2, 1, 0, 0, 0x0E, 0xAE]) 20
      \<lparr>state = relayState_on, ctl_id = 0\<rparr> [relay_client 1] []
     = (Inr (), [ControlMsg 1 0x21 0x09 (PBytes SET_PORT_ON) 0x300 0 100,
                 ControlMsg 1 0x21 0x09 (PBytes GET_INFO) 0x300 0 100,
                 ControlMsg 1 0xA1 0x01 (PInt 8) 0x300 0 100,
                 ControlMsg 1 0x21 0x09 (PBytes GET_PORT) 0x300 0 100,
                 ControlMsg 1 0xA1 0x01 (PInt 8) 0x300 0 100])"
proof -
  have s: "snd (mp709_str (board [0x1D, 5, 2, 1, 0, 0, 0x0E, 0xAE]) (relay_client 1) tr)
       = tr @ [ControlMsg 1 0x21 0x09 (PBytes GET_INFO) 0x300 0 100,
          ControlMsg 1 0xA1 0x01 (PInt 8) 0x300 0 100,
          ControlMsg 1 0x21 0x09 (PBytes GET_PORT) 0x300 0 100,
          ControlMsg 1 0xA1 0x01 (PInt 8) 0x300 0 100]" for tr
    by (simp add: mp709_str_def getInfo_def getPort_def controlMsg_def io_defs
        getInfo_decode_bytes getPort_decode_bytes relay_client_def const_defs
        GET_INFO_def GET_PORT_def Let_def)
  have sp: "setPort (board [0x1D, 5, 2, 1, 0, 0, 0x0E, 0xAE]) (relay_client 1) True 100 []
      = (Inr (PInt 7), [ControlMsg 1 0x21 0x09 (PBytes SET_PORT_ON) 0x300 0 100])"
    by (simp add: setPort_def controlMsg_def io_defs relay_client_def const_defs SET_PORT_ON_def)
  show ?thesis
    using noChange_describe_only_when_logged [of "\<lparr>state = relayState_noChange, ctl_id = 0\<rparr>"
        "board [0x1D, 5, 2, 1, 0, 0, 0x0E, 0xAE]" 20 "relay_client 1" "[]" 1 True]
      noChange_describe_only_when_logged [of "\<lparr>state = relayState_on, ctl_id = 0\<rparr>"
        "board [0x1D, 5, 2, 1, 0, 0, 0x0E, 0xAE]" 20 "relay_client 1" "[]" 1 True
        "PInt 7" "[ControlMsg 1 0x21 0x09 (PBytes SET_PORT_ON) 0x300 0 100]"]
      s sp
    by (simp add: relayState_defs)
qed

subsection \<open>Enumeration\<close>

lemma emits_weaken: "emits P m \<Longrightarrow> (\<And>c. P c \<Longrightarrow> Q c) \<Longrightarrow> emits Q m"
  unfolding emits_def by (meson list_all_iff list.pred_mono_strong)

lemma port_call_controlMsg: "port_call c \<Longrightarrow> is_controlMsg c"
  by (cases c) (simp_all add: port_call_def)

lemma not_port_call_GET_INFO:
  "\<not> port_call (ControlMsg h requestType request (PBytes GET_INFO) val index timeout)"
  by (simp add: port_call_def GET_INFO_def GET_PORT_def SET_PORT_ON_def SET_PORT_OFF_def)

lemma not_port_call_PInt:
  "\<not> port_call (ControlMsg h requestType request (PInt n) val index timeout)"
  by (simp add: port_call_def)

lemma emits_mp709_init: "emits (\<lambda>c. \<not> port_call c) (mp709_init env d k)"
proof -
  have o: "emits (\<lambda>c. \<not> port_call c) (open_handle env self)" for self
    by (rule emits_weaken [OF emits_open_handle]) (blast dest: port_call_controlMsg)
  have g: "emits (\<lambda>c. \<not> port_call c) (getInfo env self t)" for self t
    by (rule emits_getInfo) (simp_all add: not_port_call_GET_INFO not_port_call_PInt)
  have c: "emits (\<lambda>c. \<not> port_call c) (close env self)" for self
    by (rule emits_close) (simp add: port_call_def)
  show ?thesis
    unfolding mp709_init_def Let_def
    by (auto intro!: emits_intros o g c)
qed

lemma enumerate_devices_no_port_call:
  "\<exists>es. snd (enumerate_devices env k ds relays tr) = tr @ es \<and> list_all (\<lambda>c. \<not> port_call c) es"
proof (induction ds arbitrary: relays tr)
  case Nil
  show ?case by simp
next
  case (Cons d ds)
  obtain es where es: "snd (mp709_init env d k tr) = tr @ es" "list_all (\<lambda>c. \<not> port_call c) es"
    using emitsD [OF emits_mp709_init] by blast
  obtain res where res: "mp709_init env d k tr = (res, tr @ es)"
    using es(1) by (cases "mp709_init env d k tr") simp
  show ?case
  proof (cases res)
    case (Inl e)
    show ?thesis
    proof (cases "e = ValueError")
      case True
      obtain es' where "snd (enumerate_devices env k ds relays (tr @ es)) = (tr @ es) @ es'"
        "list_all (\<lambda>c. \<not> port_call c) es'"
        using Cons.IH by blast
      with res Inl True es(2) show ?thesis by simp
    next
      case False
      with res Inl es(2) show ?thesis by simp
    qed
  next
    case (Inr relay)
    obtain es' where
      "snd (enumerate_devices env k ds (relays @ [relay]) (tr @ es)) = (tr @ es) @ es'"
      "list_all (\<lambda>c. \<not> port_call c) es'"
      using Cons.IH by blast
    with res Inr es(2) show ?thesis by simp
  qed
qed

lemma enumerate_busses_no_port_call:
  "\<exists>es. snd (enumerate_busses env k bs relays tr) = tr @ es \<and> list_all (\<lambda>c. \<not> port_call c) es"
proof (induction bs arbitrary: relays tr)
  case Nil
  show ?case by simp
next
  case (Cons b bs)
  obtain es where es: "snd (enumerate_devices env k (devices b) relays tr) = tr @ es"
    "list_all (\<lambda>c. \<not> port_call c) es"
    using enumerate_devices_no_port_call by blast
  obtain res where res: "enumerate_devices env k (devices b) relays tr = (res, tr @ es)"
    using es(1) by (cases "enumerate_devices env k (devices b) relays tr") simp
  show ?case
  proof (cases res)
    case (Inl e)
    with res es(2) show ?thesis by simp
  next
    case (Inr relays')
    obtain es' where "snd (enumerate_busses env k bs relays' (tr @ es)) = (tr @ es) @ es'"
      "list_all (\<lambda>c. \<not> port_call c) es'"
      using Cons.IH by blast
    with res Inr es(2) show ?thesis by simp
  qed
qed

lemma enumerate_devices_wrong_identity:
  "\<forall>d\<in>set ds. idVendor d \<noteq> 0x16C0 \<or> idProduct d \<noteq> 0x05DF
   \<Longrightarrow> enumerate_devices env k ds relays tr = (Inr relays, tr)"
  by (induction ds) (auto simp: mp709_init_def raiseE_def)

lemma enumerate_busses_wrong_identity:
  "\<forall>b\<in>set bs. \<forall>d\<in>set (devices b). idVendor d \<noteq> 0x16C0 \<or> idProduct d \<noteq> 0x05DF
   \<Longrightarrow> enumerate_busses env k bs relays tr = (Inr relays, tr)"
  by (induction bs) (simp_all add: enumerate_devices_wrong_identity)

text \<open>
  Claim C7. When \<^verbatim>\<open>usb.busses()\<close> returns and the enumeration of
  \<^verbatim>\<open>enumerateRelays\<close> ends with an empty list, \<^verbatim>\<open>relaysControl.main\<close> raises
  \<^verbatim>\<open>RuntimeWarning\<close>, and no call of the run carries a \<^verbatim>\<open>SET_PORT_ON\<close>,
  \<^verbatim>\<open>SET_PORT_OFF\<close> or \<^verbatim>\<open>GET_PORT\<close> command: there is no \<^verbatim>\<open>setPort\<close> and no
  \<^verbatim>\<open>getPort\<close>. In particular this is so when every listed device has the wrong
  identity; the only call is then \<^verbatim>\<open>usb.busses()\<close>.
\<close>

theorem empty_discovery_fails:
  assumes "env tr Busses = Return v"
  shows "(enumerate_busses env (ctl_id self) busses [] (tr @ [Busses]) = (Inr [], tr') \<longrightarrow>
            relaysControl_main env level busses self tr = (Inl RuntimeWarning, tr')
            \<and> \<not> list_ex port_call (drop (length tr) tr'))
       \<and> ((\<forall>b\<in>set busses. \<forall>d\<in>set (devices b).
              idVendor d \<noteq> 0x16C0 \<or> idProduct d \<noteq> 0x05DF) \<longrightarrow>
            relaysControl_main env level busses self tr = (Inl RuntimeWarning, tr @ [Busses]))"
proof (intro conjI impI)
  assume e: "enumerate_busses env (ctl_id self) busses [] (tr @ [Busses]) = (Inr [], tr')"
  show "relaysControl_main env level busses self tr = (Inl RuntimeWarning, tr')"
    using assms e by (simp add: relaysControl_main_def enumerateRelays_def io_defs)
  obtain es where es: "tr' = (tr @ [Busses]) @ es" "list_all (\<lambda>c. \<not> port_call c) es"
    using enumerate_busses_no_port_call [of env "ctl_id self" busses "[]" "tr @ [Busses]"] e
    by auto
  then show "\<not> list_ex port_call (drop (length tr) tr')"
    by (simp add: list_ex_iff list_all_iff port_call_def)
next
  assume "\<forall>b\<in>set busses. \<forall>d\<in>set (devices b). idVendor d \<noteq> 0x16C0 \<or> idProduct d \<noteq> 0x05DF"
  then have "enumerate_busses env (ctl_id self) busses [] (tr @ [Busses]) = (Inr [], tr @ [Busses])"
    by (rule enumerate_busses_wrong_identity)
  with assms show "relaysControl_main env level busses self tr = (Inl RuntimeWarning, tr @ [Busses])"
    by (simp add: relaysControl_main_def enumerateRelays_def io_defs)
qed

theorem empty_discovery_fails_witness:
  "relaysControl_main (board [0x1D, 5, 2, 1, 0, 0, 0x0E, 0xAE]) 0
      [\<lparr>devices = [relay_device 1]\<rparr>] \<lparr>state = relayState_toggle, ctl_id = 20\<rparr> []
    = (Inl RuntimeWarning,
       [Busses, Open 1, DetachKernelDriver 1 (Some \<lparr>interfaceNumber = 0\<rparr>),
        SetConfiguration 1 \<lparr>interfaces = [[\<lparr>interfaceNumber = 0\<rparr>]]\<rparr>,
        ClaimInterface 1 (Some \<lparr>interfaceNumber = 0\<rparr>),
        SetAltInterface 1 (Some \<lparr>interfaceNumber = 0\<rparr>),
        ControlMsg 1 0x21 0x09 (PBytes GET_INFO) 0x300 0 100,
        ControlMsg 1 0xA1 0x01 (PInt 8) 0x300 0 100,
        ReleaseInterface 1])
   \<and> relaysControl_main (board []) 0
      [\<lparr>devices = [(relay_device 1)\<lparr>idProduct := 0x05DC\<rparr>]\<rparr>, \<lparr>devices = []\<rparr>]
      \<lparr>state = relayState_on, ctl_id = 0\<rparr> []
    = (Inl RuntimeWarning, [Busses])"
proof -
  have e: "enumerate_busses (board [0x1D, 5, 2, 1, 0, 0, 0x0E, 0xAE]) 20
      [\<lparr>devices = [relay_device 1]\<rparr>] [] ([] @ [Busses])
    = (Inr [],
       [Busses, Open 1, DetachKernelDriver 1 (Some \<lparr>interfaceNumber = 0\<rparr>),
        SetConfiguration 1 \<lparr>interfaces = [[\<lparr>interfaceNumber = 0\<rparr>]]\<rparr>,
        ClaimInterface 1 (Some \<lparr>interfaceNumber = 0\<rparr>),
        SetAltInterface 1 (Some \<lparr>interfaceNumber = 0\<rparr>),
        ControlMsg 1 0x21 0x09 (PBytes GET_INFO) 0x300 0 100,
        ControlMsg 1 0xA1 0x01 (PInt 8) 0x300 0 100,
        ReleaseInterface 1])"
    by (simp add: mp709_init_def open_handle_def close_def getInfo_def controlMsg_def io_defs
        bindS_def getInfo_decode_bytes relay_device_def const_defs GET_INFO_def Let_def)
  show ?thesis
    using empty_discovery_fails [of "board [0x1D, 5, 2, 1, 0, 0, 0x0E, 0xAE]" "[]" PNone
        "\<lparr>state = relayState_toggle, ctl_id = 20\<rparr>" "[\<lparr>devices = [relay_device 1]\<rparr>]" _ 0]
      empty_discovery_fails [of "board []" "[]" PNone "\<lparr>state = relayState_on, ctl_id = 0\<rparr>"
        "[\<lparr>devices = [(relay_device 1)\<lparr>idProduct := 0x05DC\<rparr>]\<rparr>, \<lparr>devices = []\<rparr>]" "[]" 0]
      e
    by (simp add: relay_device_def)
qed

subsection \<open>The options\<close>

lemma states_unsupported:
  "s \<notin> {''on'', ''off'', ''noChange'', ''toggle''} \<Longrightarrow> states s = None"
  by (simp add: states_def)

lemma option_step_bad_state:
  assumes "opt = ''-s'' \<or> opt = ''--state''" and "states s = None"
  shows "option_step py_int (opt, s) control verbose = Inl (Exc (KeyError s))"
  using assms by (auto simp: option_step_def setState_def)

lemma options_bad_state:
  assumes "opt = ''-s'' \<or> opt = ''--state''" and "states s = None"
  shows "(opt, s) \<in> set opts \<Longrightarrow> \<exists>e. options py_int opts control verbose = Inl e"
proof (induction opts arbitrary: control verbose)
  case Nil
  then show ?case by simp
next
  case (Cons oa opts)
  show ?case
  proof (cases "option_step py_int oa control verbose")
    case (Inl e)
    then show ?thesis by simp
  next
    case (Inr cv)
    then have "oa \<noteq> (opt, s)"
      using option_step_bad_state [OF assms] by auto
    with Cons.prems have "(opt, s) \<in> set opts" by simp
    then obtain e where "options py_int opts (fst cv) (snd cv) = Inl e"
      using Cons.IH by blast
    with Inr show ?thesis by (simp add: case_prod_beta)
  qed
qed

lemma main_options_fail:
  "options py_int opts relaysControl_init 30 = Inl e
   \<Longrightarrow> snd (main py_int env busses opts tr) = tr \<and> fst (main py_int env busses opts tr) \<noteq> Returned"
  by (cases e) (simp_all add: main_def)

text \<open>
  Claim C8. For a string \<open>s\<close> that is none of \<^verbatim>\<open>on\<close>, \<^verbatim>\<open>off\<close>,
  \<^verbatim>\<open>noChange\<close>, \<^verbatim>\<open>toggle\<close>, \<^verbatim>\<open>setState\<close> raises \<^verbatim>\<open>KeyError\<close>; it has
  no access to the USB library. A run of \<^verbatim>\<open>main\<close> whose first option is the state
  \<open>s\<close> ends in \<^verbatim>\<open>sys.exit(3)\<close> with the trace as it was, and a run with that
  option anywhere among its options never returns normally and leaves the trace as it
  was: no enumeration, no device I/O.
\<close>

theorem unknown_state_rejected:
  assumes "s \<notin> {''on'', ''off'', ''noChange'', ''toggle''}"
    and "opt = ''-s'' \<or> opt = ''--state''"
  shows "setState self s = Inl (KeyError s)
       \<and> main py_int env busses ((opt, s) # rest) tr = (SystemExit 3, tr)
       \<and> ((opt, s) \<in> set opts \<longrightarrow>
            snd (main py_int env busses opts tr) = tr
            \<and> fst (main py_int env busses opts tr) \<noteq> Returned)"
proof (intro conjI impI)
  have n: "states s = None" by (rule states_unsupported [OF assms(1)])
  show "setState self s = Inl (KeyError s)"
    using n by (simp add: setState_def)
  show "main py_int env busses ((opt, s) # rest) tr = (SystemExit 3, tr)"
    using option_step_bad_state [OF assms(2) n] by (simp add: main_def)
  assume "(opt, s) \<in> set opts"
  then obtain e where "options py_int opts relaysControl_init 30 = Inl e"
    using options_bad_state [OF assms(2) n] by blast
  then have "snd (main py_int env busses opts tr) = tr
      \<and> fst (main py_int env busses opts tr) \<noteq> Returned"
    by (rule main_options_fail)
  then show "snd (main py_int env busses opts tr) = tr"
    and "fst (main py_int env busses opts tr) \<noteq> Returned" by simp_all
qed

theorem unknown_state_rejected_witness:
  "setState \<lparr>state = relayState_noChange, ctl_id = 0\<rparr> ''blink'' = Inl (KeyError ''blink'')
   \<and> main (\<lambda>s. Inr 3758) (board []) [\<lparr>devices = [relay_device 1]\<rparr>]
        [(''-s'', ''blink''), (''-v'', '''')] [] = (SystemExit 3, [])
   \<and> snd (main (\<lambda>s. Inr 3758) (board []) [\<lparr>devices = [relay_device 1]\<rparr>]
        [(''-v'', ''''), (''-i'', ''3758''), (''-s'', ''blink'')] []) = []"
  using unknown_state_rejected [of "''blink''" "''-s''" "\<lparr>state = relayState_noChange, ctl_id = 0\<rparr>"
      "\<lambda>s. Inr 3758" "board []" "[\<lparr>devices = [relay_device 1]\<rparr>]" "[(''-v'', '''')]" "[]"
      "[(''-v'', ''''), (''-i'', ''3758''), (''-s'', ''blink'')]"]
  by simp

subsection \<open>The target id\<close>

lemma bindE_Inr_iff:
  "(bindE m f tr = (Inr b, tr')) = (\<exists>a tr1. m tr = (Inr a, tr1) \<and> f a tr1 = (Inr b, tr'))"
  by (auto simp: bindE_def split: prod.splits sum.splits)

lemma getInfo_decode_id_range:
  assumes "getInfo_decode buffer = Inr di"
  shows "0 \<le> id' di \<and> id' di \<le> 2 ^ 32 - 1"
proof (cases buffer)
  case (PBytes b)
  have b: "0 \<le> uint (b ! n)" "uint (b ! n) \<le> 255" for n
    using uint_lt2p [of "b ! n"] by simp_all
  from assms PBytes have
    "id' di = uint (b ! 7) + uint (b ! 6) * 256 + uint (b ! 5) * 65536 + uint (b ! 4) * 16777216"
    by (auto simp: getInfo_decode_bytes split: if_splits)
  with b [of 7] b [of 6] b [of 5] b [of 4] show ?thesis by simp
next
  case PNone
  with assms show ?thesis by (simp add: getInfo_decode_def bindS_def)
next
  case (PInt n)
  with assms show ?thesis by (simp add: getInfo_decode_def bindS_def)
qed

lemma getInfo_id_range:
  assumes "getInfo env self t tr = (Inr di, tr')"
  shows "0 \<le> id' di \<and> id' di \<le> 2 ^ 32 - 1"
proof -
  from assms obtain buffer where "getInfo_decode buffer = Inr di"
    by (auto simp: getInfo_def bindE_Inr_iff liftE_def)
  then show ?thesis by (rule getInfo_decode_id_range)
qed

lemma mp709_init_negative:
  assumes "k < 0"
  shows "fst (mp709_init env d k tr) \<noteq> Inr c"
proof
  assume "fst (mp709_init env d k tr) = Inr c"
  then obtain tr' where r: "mp709_init env d k tr = (Inr c, tr')"
    by (cases "mp709_init env d k tr") simp
  from r assms obtain self di tr1 tr2 where
    g: "getInfo env self 100 tr1 = (Inr di, tr2)" and "id' di = k"
    by (auto simp: mp709_init_def Let_def bindE_Inr_iff raiseE_def returnE_def
        split: if_splits)
  with getInfo_id_range [OF g] assms show False by simp
qed

lemma enumerate_devices_negative:
  assumes "k < 0"
  shows "enumerate_devices env k ds relays tr = (Inr relays', tr') \<Longrightarrow> relays' = relays"
proof (induction ds arbitrary: tr)
  case Nil
  then show ?case by simp
next
  case (Cons d ds)
  obtain res tr1 where res: "mp709_init env d k tr = (res, tr1)"
    by (cases "mp709_init env d k tr")
  with mp709_init_negative [OF assms, of env d tr] obtain e where e: "res = Inl e"
    by (cases res) auto
  with Cons.prems res have "enumerate_devices env k ds relays tr1 = (Inr relays', tr')"
    by (simp split: if_splits)
  then show ?case by (rule Cons.IH)
qed

lemma enumerate_busses_negative:
  assumes "k < 0"
  shows "enumerate_busses env k bs relays tr = (Inr relays', tr') \<Longrightarrow> relays' = relays"
proof (induction bs arbitrary: tr)
  case Nil
  then show ?case by simp
next
  case (Cons b bs)
  obtain res tr1 where res: "enumerate_devices env k (devices b) relays tr = (res, tr1)"
    by (cases "enumerate_devices env k (devices b) relays tr")
  show ?case
  proof (cases res)
    case (Inl e)
    with Cons.prems res show ?thesis by simp
  next
    case (Inr rs)
    with res have "rs = relays" using enumerate_devices_negative [OF assms] by blast
    with Cons.prems res Inr have "enumerate_busses env k bs relays tr1 = (Inr relays', tr')"
      by simp
    then show ?thesis by (rule Cons.IH)
  qed
qed

text \<open>
  Claim C10. For a negative target id \<open>k\<close> the constructor never returns an object,
  whatever the device and whatever the library answers; the id that \<^verbatim>\<open>getInfo\<close>
  decodes is always in \<open>[0, 2\<^sup>3\<^sup>2 - 1]\<close> and so differs from \<open>k\<close>; and
  \<^verbatim>\<open>enumerateRelays\<close> with that target id never returns a list.
\<close>

theorem negative_filter_rejects_all:
  assumes "k < 0"
  shows "fst (mp709_init env d k tr) \<noteq> Inr c
       \<and> (getInfo env self timeout tr0 = (Inr di, tr1) \<longrightarrow>
            0 \<le> id' di \<and> id' di \<le> 2 ^ 32 - 1 \<and> id' di \<noteq> k)
       \<and> (ctl_id ctl = k \<longrightarrow> fst (enumerateRelays env busses ctl tr) \<noteq> Inr relays)"
proof (intro conjI impI)
  show "fst (mp709_init env d k tr) \<noteq> Inr c"
    by (rule mp709_init_negative [OF assms])
next
  assume g: "getInfo env self timeout tr0 = (Inr di, tr1)"
  from getInfo_id_range [OF g] show "0 \<le> id' di" and "id' di \<le> 2 ^ 32 - 1" by simp_all
  from getInfo_id_range [OF g] assms show "id' di \<noteq> k" by simp
next
  assume k: "ctl_id ctl = k"
  show "fst (enumerateRelays env busses ctl tr) \<noteq> Inr relays"
  proof
    assume "fst (enumerateRelays env busses ctl tr) = Inr relays"
    then obtain tr' where "enumerateRelays env busses ctl tr = (Inr relays, tr')"
      by (cases "enumerateRelays env busses ctl tr") simp
    then obtain rs tr1 tr2 where e: "enumerate_busses env k busses [] tr1 = (Inr rs, tr2)"
      and n: "rs \<noteq> []"
      using k by (auto simp: enumerateRelays_def bindE_Inr_iff raiseE_def returnE_def
          split: if_splits)
    from enumerate_busses_negative [OF assms e] n show False by simp
  qed
qed

theorem negative_filter_rejects_all_witness:
  "mp709_init (board [0x1D, 5, 2, 1, 0, 0, 0x0E, 0xAE]) (relay_device 1) (- 1) []
     = (Inl ValueError,
        [Open 1, DetachKernelDriver 1 (Some \<lparr>interfaceNumber = 0\<rparr>),
         SetConfiguration 1 \<lparr>interfaces = [[\<lparr>interfaceNumber = 0\<rparr>]]\<rparr>,
         ClaimInterface 1 (Some \<lparr>interfaceNumber = 0\<rparr>),
         SetAltInterface 1 (Some \<lparr>interfaceNumber = 0\<rparr>),
         ControlMsg 1 0x21 0x09 (PBytes GET_INFO) 0x300 0 100,
         ControlMsg 1 0xA1 0x01 (PInt 8) 0x300 0 100,
         ReleaseInterface 1])
   \<and> fst (mp709_init (board [0x1D, 5, 2, 1, 0xFF, 0xFF, 0xFF, 0xFF]) (relay_device 1) (- 1) [])
       \<noteq> Inr (relay_client 1)
   \<and> fst (getInfo (board [0x1D, 5, 2, 1, 0xFF, 0xFF, 0xFF, 0xFF]) (relay_client 1) 100 [])
       = Inr \<lparr>family = 5, version = 258, id' = 4294967295\<rparr>"
proof -
  have i: "mp709_init (board [0x1D, 5, 2, 1, 0, 0, 0x0E, 0xAE]) (relay_device 1) (- 1) []
     = (Inl ValueError,
        [Open 1, DetachKernelDriver 1 (Some \<lparr>interfaceNumber = 0\<rparr>),
         SetConfiguration 1 \<lparr>interfaces = [[\<lparr>interfaceNumber = 0\<rparr>]]\<rparr>,
         ClaimInterface 1 (Some \<lparr>interfaceNumber = 0\<rparr>),
         SetAltInterface 1 (Some \<lparr>interfaceNumber = 0\<rparr>),
         ControlMsg 1 0x21 0x09 (PBytes GET_INFO) 0x300 0 100,
         ControlMsg 1 0xA1 0x01 (PInt 8) 0x300 0 100,
         ReleaseInterface 1])"
    by (simp add: mp709_init_def open_handle_def close_def getInfo_def controlMsg_def io_defs
        bindS_def getInfo_decode_bytes relay_device_def const_defs GET_INFO_def Let_def)
  have g: "getInfo (board [0x1D, 5, 2, 1, 0xFF, 0xFF, 0xFF, 0xFF]) (relay_client 1) 100 []
       = (Inr \<lparr>family = 5, version = 258, id' = 4294967295\<rparr>,
          [ControlMsg 1 0x21 0x09 (PBytes GET_INFO) 0x300 0 100,
           ControlMsg 1 0xA1 0x01 (PInt 8) 0x300 0 100])"
    by (simp add: getInfo_def controlMsg_def io_defs getInfo_decode_bytes relay_client_def
        const_defs GET_INFO_def)
  have n: "(- 1 :: int) < 0" by simp
  from negative_filter_rejects_all [OF n,
      where env = "board [0x1D, 5, 2, 1, 0xFF, 0xFF, 0xFF, 0xFF]" and d = "relay_device 1"
        and tr = "[]" and c = "relay_client 1" and self = "relay_client 1" and timeout = 100
        and ?tr0.0 = "[]"]
    i g
  show ?thesis by simp
qed

lemma open_handle_result:
  assumes "open_handle env self tr = (Inr self1, tr1)" and "handle self = None"
    and "dev self = Some d"
  shows "self1 = self\<lparr>handle := Some (devnum d)\<rparr>"
  using assms
  by (auto simp: open_handle_def bindE_Inr_iff returnE_def Let_def)

lemma open_handle_no_controlMsg:
  assumes "open_handle env self tr = (r, tr1)"
  shows "\<not> list_ex is_controlMsg (drop (length tr) tr1)"
proof -
  obtain es where "snd (open_handle env self tr) = tr @ es"
    "list_all (\<lambda>c. \<not> is_controlMsg c) es"
    using emitsD [OF emits_open_handle] by blast
  with assms show ?thesis by (simp add: list_ex_iff list_all_iff)
qed

lemma close_open_handle:
  "handle self = Some h \<Longrightarrow>
   bindE (close env self) (\<lambda>_. raiseE ValueError) tr =
     (case env tr (ReleaseInterface h) of Raise e \<Rightarrow> Inl e | Return v \<Rightarrow> Inl ValueError,
      tr @ [ReleaseInterface h])"
  by (simp add: close_def io_defs split: reply.split)

text \<open>
  Claim C4. For a device of the right identity on which \<^verbatim>\<open>open\<close> succeeds, leaving
  the object \<open>self1\<close> and the trace \<open>tr1\<close>:
  with target id 0 the constructor returns \<open>self1\<close> at once, and no control transfer
  has been made;
  with a target id \<open>k \<noteq> 0\<close> the next call is the \<^verbatim>\<open>GET_INFO\<close> transfer of
  \<^verbatim>\<open>getInfo\<close>; when \<^verbatim>\<open>getInfo\<close> returns \<open>di\<close>, the object is returned if the id
  of \<open>di\<close> is \<open>k\<close>, and otherwise \<^verbatim>\<open>releaseInterface\<close> is called and then
  \<^verbatim>\<open>ValueError\<close> raised (or the exception of \<^verbatim>\<open>releaseInterface\<close>, if it
  raises); and the constructor returns an object only if \<^verbatim>\<open>getInfo\<close> returned the
  id \<open>k\<close>.
\<close>

theorem id_filter:
  assumes ident: "idVendor d = 0x16C0" "idProduct d = 0x05DF"
    and desc: "configurations d = conf # confs" "interfaces conf = (i # alts) # others"
    and opened: "open_handle env
        \<lparr>handle = None, dev = Some d, intf = Some i, intfNum = interfaceNumber i\<rparr> tr
        = (Inr self1, tr1)"
  shows "mp709_init env d 0 tr = (Inr self1, tr1)
       \<and> \<not> list_ex is_controlMsg (drop (length tr) tr1)
       \<and> (k \<noteq> 0 \<longrightarrow> getInfo env self1 100 tr1 = (Inr di, tr2) \<longrightarrow>
            mp709_init env d k tr =
              (if id' di = k then (Inr self1, tr2)
               else (case env tr2 (ReleaseInterface (devnum d)) of
                       Raise e \<Rightarrow> Inl e | Return v \<Rightarrow> Inl ValueError,
                     tr2 @ [ReleaseInterface (devnum d)])))
       \<and> (k \<noteq> 0 \<longrightarrow> mp709_init env d k tr = (Inr c, tr') \<longrightarrow>
            (\<exists>di. getInfo env self1 100 tr1 = (Inr di, tr') \<and> id' di = k) \<and> c = self1)
       \<and> (k \<noteq> 0 \<longrightarrow>
            (\<exists>es. snd (mp709_init env d k tr) =
               tr1 @ ControlMsg (devnum d) HID_REQ_TO_DEV SET_REPORT (PBytes GET_INFO)
                       REPORT_TYPE_FEATURE (interfaceNumber i) 100 # es))"
proof -
  have self1: "self1 = \<lparr>handle = Some (devnum d), dev = Some d, intf = Some i,
      intfNum = interfaceNumber i\<rparr>"
    using open_handle_result [OF opened] by simp
  then have h1: "handle self1 = Some (devnum d)" and n1: "intfNum self1 = interfaceNumber i"
    by simp_all
  have init: "mp709_init env d k tr =
      (if k \<noteq> 0 then
         bindE (getInfo env self1 100) (\<lambda>info.
           if id' info \<noteq> k then bindE (close env self1) (\<lambda>_. raiseE ValueError)
           else returnE self1) tr1
       else (Inr self1, tr1))" for k
    using ident desc opened
    by (simp add: mp709_init_def Let_def bindE_def liftE_def bindS_def returnE_def)
  have a: "mp709_init env d 0 tr = (Inr self1, tr1)"
    by (simp add: init)
  have b: "\<not> list_ex is_controlMsg (drop (length tr) tr1)"
    by (rule open_handle_no_controlMsg [OF opened])
  have c: "mp709_init env d k tr =
              (if id' di = k then (Inr self1, tr2)
               else (case env tr2 (ReleaseInterface (devnum d)) of
                       Raise e \<Rightarrow> Inl e | Return v \<Rightarrow> Inl ValueError,
                     tr2 @ [ReleaseInterface (devnum d)]))"
    if "k \<noteq> 0" "getInfo env self1 100 tr1 = (Inr di, tr2)"
    using that by (simp add: init bindE_def [of "getInfo env self1 100"] returnE_def
        close_open_handle [OF h1])
  have d: "(\<exists>di. getInfo env self1 100 tr1 = (Inr di, tr') \<and> id' di = k) \<and> c = self1"
    if "k \<noteq> 0" "mp709_init env d k tr = (Inr c, tr')"
    using that
    by (auto simp: init bindE_Inr_iff raiseE_def returnE_def split: if_splits)
  have e: "\<exists>es. snd (mp709_init env d k tr) =
               tr1 @ ControlMsg (devnum d) HID_REQ_TO_DEV SET_REPORT (PBytes GET_INFO)
                       REPORT_TYPE_FEATURE (interfaceNumber i) 100 # es"
    if "k \<noteq> 0"
    using that
    by (auto simp: init getInfo_def controlMsg_def close_def io_defs h1 n1
        split: reply.split sum.split)
  from a b c d e show ?thesis by blast
qed

theorem id_filter_witness:
  "mp709_init (board [0x1D, 5, 2, 1, 0, 0, 0x0E, 0xAE]) (relay_device 1) 0 []
     = (Inr (relay_client 1),
        [Open 1, DetachKernelDriver 1 (Some \<lparr>interfaceNumber = 0\<rparr>),
         SetConfiguration 1 \<lparr>interfaces = [[\<lparr>interfaceNumber = 0\<rparr>]]\<rparr>,
         ClaimInterface 1 (Some \<lparr>interfaceNumber = 0\<rparr>),
         SetAltInterface 1 (Some \<lparr>interfaceNumber = 0\<rparr>)])
   \<and> mp709_init (board [0x1D, 5, 2, 1, 0, 0, 0x0E, 0xAE]) (relay_device 1) 3758 []
     = (Inr (relay_client 1),
        [Open 1, DetachKernelDriver 1 (Some \<lparr>interfaceNumber = 0\<rparr>),
         SetConfiguration 1 \<lparr>interfaces = [[\<lparr>interfaceNumber = 0\<rparr>]]\<rparr>,
         ClaimInterface 1 (Some \<lparr>interfaceNumber = 0\<rparr>),
         SetAltInterface 1 (Some \<lparr>interfaceNumber = 0\<rparr>),
         ControlMsg 1 0x21 0x09 (PBytes GET_INFO) 0x300 0 100,
         ControlMsg 1 0xA1 0x01 (PInt 8) 0x300 0 100])
   \<and> mp709_init (board [0x1D, 5, 2, 1, 0, 0, 0x0E, 0xAE]) (relay_device 1) 20 []
     = (Inl ValueError,
        [Open 1, DetachKernelDriver 1 (Some \<lparr>interfaceNumber = 0\<rparr>),
         SetConfiguration 1 \<lparr>interfaces = [[\<lparr>interfaceNumber = 0\<rparr>]]\<rparr>,
         ClaimInterface 1 (Some \<lparr>interfaceNumber = 0\<rparr>),
         SetAltInterface 1 (Some \<lparr>interfaceNumber = 0\<rparr>),
         ControlMsg 1 0x21 0x09 (PBytes GET_INFO) 0x300 0 100,
         ControlMsg 1 0xA1 0x01 (PInt 8) 0x300 0 100,
         ReleaseInterface 1])"
proof -
  let ?env = "board [0x1D, 5, 2, 1, 0, 0, 0x0E, 0xAE]"
  let ?tr1 = "[Open 1, DetachKernelDriver 1 (Some \<lparr>interfaceNumber = 0\<rparr>),
         SetConfiguration 1 \<lparr>interfaces = [[\<lparr>interfaceNumber = 0\<rparr>]]\<rparr>,
         ClaimInterface 1 (Some \<lparr>interfaceNumber = 0\<rparr>),
         SetAltInterface 1 (Some \<lparr>interfaceNumber = 0\<rparr>)]"
  let ?tr2 = "?tr1 @ [ControlMsg 1 0x21 0x09 (PBytes GET_INFO) 0x300 0 100,
         ControlMsg 1 0xA1 0x01 (PInt 8) 0x300 0 100]"
  have v: "idVendor (relay_device 1) = 0x16C0" and p: "idProduct (relay_device 1) = 0x05DF"
    and cf: "configurations (relay_device 1) = \<lparr>interfaces = [[\<lparr>interfaceNumber = 0\<rparr>]]\<rparr> # []"
    and it: "interfaces \<lparr>interfaces = [[\<lparr>interfaceNumber = 0\<rparr>]]\<rparr>
               = (\<lparr>interfaceNumber = 0\<rparr> # []) # []"
    by (simp_all add: relay_device_def)
  have op: "open_handle ?env
        \<lparr>handle = None, dev = Some (relay_device 1), intf = Some \<lparr>interfaceNumber = 0\<rparr>,
         intfNum = interfaceNumber \<lparr>interfaceNumber = 0\<rparr>\<rparr> []
        = (Inr (relay_client 1), ?tr1)"
    by (simp add: open_handle_def io_defs relay_device_def relay_client_def Let_def)
  have g: "getInfo ?env (relay_client 1) 100 ?tr1
      = (Inr \<lparr>family = 5, version = 258, id' = 3758\<rparr>, ?tr2)"
    by (simp add: getInfo_def controlMsg_def io_defs getInfo_decode_bytes relay_client_def
        const_defs GET_INFO_def)
  note T = id_filter [OF v p cf it op]
  have w0: "mp709_init ?env (relay_device 1) 0 [] = (Inr (relay_client 1), ?tr1)"
    by (rule T [THEN conjunct1])
  have m: "(3758 :: int) \<noteq> 0" "(20 :: int) \<noteq> 0" by simp_all
  have w1: "mp709_init ?env (relay_device 1) 3758 [] = (Inr (relay_client 1), ?tr2)"
    using T [THEN conjunct2, THEN conjunct2, THEN conjunct1, rule_format, OF m(1) g]
    by simp
  have r: "?env ?tr2 (ReleaseInterface (devnum (relay_device 1))) = Return PNone"
    by (simp add: relay_device_def)
  have w2: "mp709_init ?env (relay_device 1) 20 []
      = (Inl ValueError, ?tr2 @ [ReleaseInterface 1])"
    using T [THEN conjunct2, THEN conjunct2, THEN conjunct1, rule_format, OF m(2) g]
    by (simp only: r) (simp add: relay_device_def)
  show ?thesis
    unfolding w0 w1 w2 by simp
qed

end
